theory Spec2Isabelle
  imports Main "HOL-Library.Sublist"
begin

section \<open>JavaScript strings\<close>

text \<open>
  A JavaScript string is a sequence of UTF-16 code units; \<open>s.includes\<close>, \<open>split\<close>, \<open>===\<close> and
  the regular expressions of the program (none has the \<open>u\<close> flag) work on code units.
  ASCII literals are written \<open>js ''...''\<close>, CJK literals as their code units.
\<close>

type_synonym jsstring = "nat list"

definition js :: "string \<Rightarrow> jsstring" where
  "js s = map of_char s"

text \<open>\<open>s.includes(k)\<close>: \<open>k\<close> occurs in \<open>s\<close> as a contiguous run (the empty \<open>k\<close> always does).\<close>

fun includesStr :: "jsstring \<Rightarrow> jsstring \<Rightarrow> bool" where
  "includesStr [] k = (k = [])"
| "includesStr (c # cs) k = (prefix k (c # cs) \<or> includesStr cs k)"

text \<open>
  \<open>s.toLowerCase()\<close> on the ASCII letters; every other code unit is kept. This is the
  host's function on the texts of \<open>plainText\<close>, whose code units are ASCII or CJK
  ideographs (U+4E00 to U+9FFF, which have no case); on a cased character outside ASCII
  the host's function differs.
\<close>

definition toLowerCase :: "jsstring \<Rightarrow> jsstring" where
  "toLowerCase s = map (\<lambda>c. if 65 \<le> c \<and> c \<le> 90 then c + 32 else c) s"


text \<open>\<open>s.split(sep)\<close> for a one-unit separator: always at least one segment.\<close>

fun split :: "nat \<Rightarrow> jsstring \<Rightarrow> jsstring list" where
  "split sep [] = [[]]"
| "split sep (c # cs) =
     (if c = sep then [] # split sep cs
      else (case split sep cs of [] \<Rightarrow> [[c]] | w # ws \<Rightarrow> (c # w) # ws))"

text \<open>\<open>xs[i]\<close> of an array: \<open>undefined\<close> (here \<open>None\<close>) out of range.\<close>

definition at :: "'a list \<Rightarrow> nat \<Rightarrow> 'a option" where
  "at xs i = (if i < length xs then Some (xs ! i) else None)"

text \<open>Truthiness of a string that may be \<open>undefined\<close>: defined and not empty.\<close>

definition truthy :: "jsstring option \<Rightarrow> bool" where
  "truthy v = (case v of None \<Rightarrow> False | Some s \<Rightarrow> s \<noteq> [])"

text \<open>The character classes \<open>[a-zA-Z0-9_-]\<close>, \<open>[a-zA-Z0-9._-]\<close> and \<open>\d\<close>.\<close>

definition isAlnum :: "nat \<Rightarrow> bool" where
  "isAlnum c = ((97 \<le> c \<and> c \<le> 122) \<or> (65 \<le> c \<and> c \<le> 90) \<or> (48 \<le> c \<and> c \<le> 57))"

definition isProviderChar :: "nat \<Rightarrow> bool" where
  "isProviderChar c = (isAlnum c \<or> c = 95 \<or> c = 45)"

definition isNameChar :: "nat \<Rightarrow> bool" where
  "isNameChar c = (isAlnum c \<or> c = 46 \<or> c = 95 \<or> c = 45)"

definition isDigit :: "nat \<Rightarrow> bool" where
  "isDigit c = (48 \<le> c \<and> c \<le> 57)"

section \<open>The model manager\<close>

record model =
  model_id :: jsstring
  name :: jsstring
  provider :: jsstring
  contextWindow :: nat
  maxTokens :: nat
  reasoning :: bool
  model_input :: "jsstring list"
  model_output :: "jsstring list"

text \<open>
  The SQLite tables of \<open>initDatabase\<close>, one record per row (the surrogate \<open>id\<close> column is
  read by no statement and is left out). Timestamps are numbers; \<open>datetime('now')\<close> and
  \<open>CURRENT_TIMESTAMP\<close> are the parameter \<open>now\<close> of the operations.
\<close>

record user_pref_row =
  up_user_id :: jsstring
  up_model_id :: jsstring
  up_last_used :: nat
  up_usage_count :: int
  up_created_at :: nat
  up_updated_at :: nat

record room_pref_row =
  rp_room_id :: jsstring
  rp_model_id :: jsstring
  rp_set_by_user :: "jsstring option"
  rp_set_at :: nat

record usage_row =
  us_model_id :: jsstring
  us_user_id :: "jsstring option"
  us_room_id :: "jsstring option"
  us_tokens_used :: int
  us_response_time_ms :: int
  us_timestamp :: nat

text \<open>
  A statement of the database driver may throw (file locked, disk full, table missing).
  \<open>db_fails\<close> says which statements throw on this handle.
\<close>

datatype statement = ReplaceUserPreference | ReplaceRoomPreference | InsertUsage
  | LoadUserPreferences | LoadRoomPreferences
  | SelectUserPreference | UpdateUserPreference | InsertUserPreference

record database =
  user_model_preferences :: "user_pref_row list"
  room_model_preferences :: "room_pref_row list"
  model_usage_stats :: "usage_row list"
  db_fails :: "statement \<Rightarrow> bool"

record ModelManager =
  currentModel :: jsstring
  userPreferences :: "jsstring \<rightharpoonup> jsstring"
  roomPreferences :: "jsstring \<rightharpoonup> jsstring"
  availableModels :: "model list"
  db :: "database option"

record "context" =
  userId :: "jsstring option"
  roomId :: "jsstring option"

record options = "context" +
  scope :: "jsstring option"

datatype error = InvalidFormat jsstring | ModelUnavailable jsstring | StorageError statement

record switch_result =
  success :: bool
  previous :: "jsstring option"
  current :: jsstring

text \<open>
  \<open>validateModelIdFormat\<close>: the test of \<^verbatim>\<open>/^[a-zA-Z0-9_-]+\/[a-zA-Z0-9._-]+$/\<close>. The first
  class has no \<open>/\<close>, so the first token is the longest run of its characters.
\<close>

definition validateModelIdFormat :: "jsstring \<Rightarrow> bool" where
  "validateModelIdFormat modelId =
     (takeWhile isProviderChar modelId \<noteq> [] \<and>
      (case dropWhile isProviderChar modelId of
         [] \<Rightarrow> False
       | c # rest \<Rightarrow> c = 47 \<and> rest \<noteq> [] \<and> list_all isNameChar rest))"

definition isModelAvailable :: "'a ModelManager_scheme \<Rightarrow> jsstring \<Rightarrow> bool" where
  "isModelAvailable this modelId = list_ex (\<lambda>m. model_id m = modelId) (availableModels this)"

text \<open>\<open>getCurrentModel\<close>: user preference, then room preference, then the session default.\<close>

definition getCurrentModel :: "'a ModelManager_scheme \<Rightarrow> 'b context_scheme \<Rightarrow> jsstring" where
  "getCurrentModel this ctx =
     (case (if truthy (userId ctx) then userPreferences this (the (userId ctx)) else None) of
        Some m \<Rightarrow> m
      | None \<Rightarrow>
         (case (if truthy (roomId ctx) then roomPreferences this (the (roomId ctx)) else None) of
            Some m \<Rightarrow> m
          | None \<Rightarrow> currentModel this))"

text \<open>
  \<open>INSERT OR REPLACE\<close> on a table with a \<open>UNIQUE\<close> key: the row with the same key is
  deleted and the new row is inserted; a column the statement does not name takes its
  \<open>DEFAULT\<close> (\<open>usage_count\<close> 0, the timestamps \<open>CURRENT_TIMESTAMP\<close>).
\<close>

definition replaceUserPreference :: "nat \<Rightarrow> jsstring \<Rightarrow> jsstring \<Rightarrow> database \<Rightarrow> error + database" where
  "replaceUserPreference now uid modelId d =
     (if db_fails d ReplaceUserPreference then Inl (StorageError ReplaceUserPreference)
      else Inr (d\<lparr>user_model_preferences :=
             filter (\<lambda>r. up_user_id r \<noteq> uid) (user_model_preferences d) @
             [\<lparr>up_user_id = uid, up_model_id = modelId, up_last_used = now,
               up_usage_count = 0, up_created_at = now, up_updated_at = now\<rparr>]\<rparr>))"

definition replaceRoomPreference ::
  "nat \<Rightarrow> jsstring \<Rightarrow> jsstring \<Rightarrow> jsstring \<Rightarrow> database \<Rightarrow> error + database" where
  "replaceRoomPreference now rid modelId setBy d =
     (if db_fails d ReplaceRoomPreference then Inl (StorageError ReplaceRoomPreference)
      else Inr (d\<lparr>room_model_preferences :=
             filter (\<lambda>r. rp_room_id r \<noteq> rid) (room_model_preferences d) @
             [\<lparr>rp_room_id = rid, rp_model_id = modelId, rp_set_by_user = Some setBy,
               rp_set_at = now\<rparr>]\<rparr>))"

definition insertUsage ::
  "nat \<Rightarrow> jsstring \<Rightarrow> jsstring option \<Rightarrow> jsstring option \<Rightarrow> int \<Rightarrow> int \<Rightarrow> database \<Rightarrow> error + database" where
  "insertUsage now modelId uid rid tokensUsed responseTimeMs d =
     (if db_fails d InsertUsage then Inl (StorageError InsertUsage)
      else Inr (d\<lparr>model_usage_stats := model_usage_stats d @
             [\<lparr>us_model_id = modelId, us_user_id = uid, us_room_id = rid,
               us_tokens_used = tokensUsed, us_response_time_ms = responseTimeMs,
               us_timestamp = now\<rparr>]\<rparr>))"

text \<open>
  \<open>recordModelUsage\<close>: nothing without a database; otherwise one insert, whose exception
  is caught and logged. \<open>userId || null\<close> turns the empty string into \<open>null\<close>.
\<close>

definition orNull :: "jsstring option \<Rightarrow> jsstring option" where
  "orNull v = (if truthy v then v else None)"

definition recordModelUsage ::
  "nat \<Rightarrow> 'a ModelManager_scheme \<Rightarrow> jsstring \<Rightarrow> 'b context_scheme \<Rightarrow> 'a ModelManager_scheme" where
  "recordModelUsage now this modelId ctx =
     (case db this of
        None \<Rightarrow> this
      | Some d \<Rightarrow>
         (case insertUsage now modelId (orNull (userId ctx)) (orNull (roomId ctx)) 0 0 d of
            Inl e \<Rightarrow> this
          | Inr d' \<Rightarrow> this\<lparr>db := Some d'\<rparr>))"

text \<open>
  \<open>switchModel\<close>. The result is the returned object or the thrown error, with the manager
  as the call leaves it: an exception of a preference statement is rethrown after the
  in-memory updates made before it. The three \<open>if\<close> blocks of the body are
  \<open>switchSession\<close>, \<open>switchUser\<close> and \<open>switchRoom\<close>; \<open>scope.includes\<close> is the substring
  test, the scope being a string at every call (\<open>'session'\<close> when the caller gives none).
\<close>

definition switchSession ::
  "jsstring \<Rightarrow> jsstring \<Rightarrow> switch_result \<times> ModelManager \<Rightarrow> switch_result \<times> ModelManager" where
  "switchSession scp modelId rt =
     (case rt of (result, this) \<Rightarrow>
        if includesStr scp (js ''session'') \<or> includesStr scp (js ''all'')
        then (result\<lparr>previous := Some (currentModel this)\<rparr>, this\<lparr>currentModel := modelId\<rparr>)
        else (result, this))"

definition switchUser ::
  "nat \<Rightarrow> jsstring \<Rightarrow> jsstring \<Rightarrow> options \<Rightarrow> ModelManager \<Rightarrow> error option \<times> ModelManager" where
  "switchUser now scp modelId opts this =
     (if includesStr scp (js ''user'') \<and> truthy (userId opts)
      then (let uid = the (userId opts);
                this' = this\<lparr>userPreferences := (userPreferences this)(uid \<mapsto> modelId)\<rparr>
            in (case db this' of
                  None \<Rightarrow> (None, this')
                | Some d \<Rightarrow>
                   (case replaceUserPreference now uid modelId d of
                      Inl e \<Rightarrow> (Some e, this')
                    | Inr d' \<Rightarrow> (None, this'\<lparr>db := Some d'\<rparr>))))
      else (None, this))"

definition switchRoom ::
  "nat \<Rightarrow> jsstring \<Rightarrow> jsstring \<Rightarrow> options \<Rightarrow> ModelManager \<Rightarrow> error option \<times> ModelManager" where
  "switchRoom now scp modelId opts this =
     (if includesStr scp (js ''room'') \<and> truthy (roomId opts)
      then (let rid = the (roomId opts);
                setBy = (if truthy (userId opts) then the (userId opts) else js ''system'');
                this' = this\<lparr>roomPreferences := (roomPreferences this)(rid \<mapsto> modelId)\<rparr>
            in (case db this' of
                  None \<Rightarrow> (None, this')
                | Some d \<Rightarrow>
                   (case replaceRoomPreference now rid modelId setBy d of
                      Inl e \<Rightarrow> (Some e, this')
                    | Inr d' \<Rightarrow> (None, this'\<lparr>db := Some d'\<rparr>))))
      else (None, this))"

definition scopeOrDefault :: "options \<Rightarrow> jsstring" where
  "scopeOrDefault opts = (case scope opts of None \<Rightarrow> js ''session'' | Some s \<Rightarrow> s)"

definition switchModel ::
  "nat \<Rightarrow> ModelManager \<Rightarrow> jsstring \<Rightarrow> options \<Rightarrow> (error + switch_result) \<times> ModelManager" where
  "switchModel now this modelId opts =
     (let scp = scopeOrDefault opts in
      if \<not> validateModelIdFormat modelId then (Inl (InvalidFormat modelId), this)
      else if \<not> isModelAvailable this modelId then (Inl (ModelUnavailable modelId), this)
      else
        (case switchSession scp modelId
                (\<lparr>success = True, previous = None, current = modelId\<rparr>, this) of
           (result, this1) \<Rightarrow>
             (case switchUser now scp modelId opts this1 of
                (Some e, this2) \<Rightarrow> (Inl e, this2)
              | (None, this2) \<Rightarrow>
                 (case switchRoom now scp modelId opts this2 of
                    (Some e, this3) \<Rightarrow> (Inl e, this3)
                  | (None, this3) \<Rightarrow> (Inr result, recordModelUsage now this3 modelId opts)))))"

text \<open>
  \<open>loadPreferences\<close>: every row of the two preference tables is put into the in-memory
  maps, in table order. An exception of a select is caught and logged, and what was
  loaded before it stays.
\<close>

definition loadPreferences :: "ModelManager \<Rightarrow> ModelManager" where
  "loadPreferences this =
     (case db this of
        None \<Rightarrow> this
      | Some d \<Rightarrow>
         if db_fails d LoadUserPreferences then this
         else
           (let this' = this\<lparr>userPreferences :=
                  fold (\<lambda>row m. m(up_user_id row \<mapsto> up_model_id row))
                    (user_model_preferences d) (userPreferences this)\<rparr>
            in if db_fails d LoadRoomPreferences then this'
               else this'\<lparr>roomPreferences :=
                      fold (\<lambda>row m. m(rp_room_id row \<mapsto> rp_model_id row))
                        (room_model_preferences d) (roomPreferences this)\<rparr>))"

text \<open>\<open>getDefaultModels\<close>, the catalog used when no other source can be read.\<close>

definition getDefaultModels :: "model list" where
  "getDefaultModels =
     [\<lparr>model_id = js ''cc-oaicomp/Kimi-K2.5'', name = js ''Kimi K2.5'',
       provider = js ''cc-oaicomp'', contextWindow = 256000, maxTokens = 32000,
       reasoning = False, model_input = [js ''text'', js ''image''], model_output = [js ''text'']\<rparr>,
      \<lparr>model_id = js ''cc-oaicomp/DeepSeek-V3.2'', name = js ''DeepSeek V3.2'',
       provider = js ''cc-oaicomp'', contextWindow = 128000, maxTokens = 8000,
       reasoning = False, model_input = [js ''text''], model_output = [js ''text'']\<rparr>,
      \<lparr>model_id = js ''cc-openai/gpt-5.3-codex'', name = js ''GPT 5.3 Codex'',
       provider = js ''cc-openai'', contextWindow = 272000, maxTokens = 128000,
       reasoning = False, model_input = [js ''text'', js ''image''], model_output = [js ''text'']\<rparr>,
      \<lparr>model_id = js ''cc-claude/claude-3.5-sonnet'', name = js ''Claude 3.5 Sonnet'',
       provider = js ''cc-claude'', contextWindow = 200000, maxTokens = 128000,
       reasoning = False, model_input = [js ''text'', js ''image''], model_output = [js ''text'']\<rparr>,
      \<lparr>model_id = js ''cc-gemini/gemini-3-flash-preview'', name = js ''Gemini 3 Flash Preview'',
       provider = js ''cc-gemini'', contextWindow = 1048576, maxTokens = 65536,
       reasoning = False, model_input = [js ''text'', js ''image'', js ''pdf''],
       model_output = [js ''text'']\<rparr>]"

text \<open>
  The manager as the constructor and \<open>initialize\<close> leave it when the catalog is the
  default one: without a database, and with a freshly created (empty) one.
\<close>

definition emptyDatabase :: database where
  "emptyDatabase = \<lparr>user_model_preferences = [], room_model_preferences = [],
     model_usage_stats = [], db_fails = (\<lambda>s. False)\<rparr>"

definition defaultManager :: ModelManager where
  "defaultManager = \<lparr>currentModel = js ''cc-oaicomp/Kimi-K2.5'', userPreferences = Map.empty,
     roomPreferences = Map.empty, availableModels = getDefaultModels, db = None\<rparr>"

definition defaultManagerDb :: ModelManager where
  "defaultManagerDb = defaultManager\<lparr>db := Some emptyDatabase\<rparr>"

section \<open>The preference store\<close>

text \<open>
  \<open>PreferenceStore.saveUserPreference\<close> on an initialised store: a select, then an update
  of the existing row (the usage count goes up by one) or an insert with usage count 1.
  An exception of a statement is logged and rethrown. The count is SQLite's 64-bit
  integer: the update is as written here while the stored count is below \<open>2^63 - 1\<close>.
\<close>

definition saveUserPreference :: "nat \<Rightarrow> database \<Rightarrow> jsstring \<Rightarrow> jsstring \<Rightarrow> error + database" where
  "saveUserPreference now d uid modelId =
     (if db_fails d SelectUserPreference then Inl (StorageError SelectUserPreference)
      else if list_ex (\<lambda>r. up_user_id r = uid) (user_model_preferences d)
      then (if db_fails d UpdateUserPreference then Inl (StorageError UpdateUserPreference)
            else Inr (d\<lparr>user_model_preferences :=
                   map (\<lambda>r. if up_user_id r = uid
                             then r\<lparr>up_model_id := modelId, up_last_used := now,
                                    up_updated_at := now, up_usage_count := up_usage_count r + 1\<rparr>
                             else r)
                     (user_model_preferences d)\<rparr>))
      else (if db_fails d InsertUserPreference then Inl (StorageError InsertUserPreference)
            else Inr (d\<lparr>user_model_preferences := user_model_preferences d @
                   [\<lparr>up_user_id = uid, up_model_id = modelId, up_last_used = now,
                     up_usage_count = 1, up_created_at = now, up_updated_at = now\<rparr>]\<rparr>)))"

section \<open>The resolution order as the specification words it\<close>

text \<open>
  The effective model in the specification's words: the user preference when a record
  exists for the user, otherwise the room preference when a record exists for the room,
  otherwise the session default.
\<close>

definition effectiveModel_spec ::
  "'a ModelManager_scheme \<Rightarrow> jsstring option \<Rightarrow> jsstring option \<Rightarrow> jsstring" where
  "effectiveModel_spec this uid rid =
     (case Option.bind uid (userPreferences this) of
        Some m \<Rightarrow> m
      | None \<Rightarrow>
         (case Option.bind rid (roomPreferences this) of
            Some m \<Rightarrow> m
          | None \<Rightarrow> currentModel this))"

text \<open>The tiers a call of \<open>switchModel\<close> writes, as its three conditions read them.\<close>

definition sessionTier :: "options \<Rightarrow> bool" where
  "sessionTier opts =
     (includesStr (scopeOrDefault opts) (js ''session'') \<or> includesStr (scopeOrDefault opts) (js ''all''))"

definition userTier :: "options \<Rightarrow> bool" where
  "userTier opts = (includesStr (scopeOrDefault opts) (js ''user'') \<and> truthy (userId opts))"

definition roomTier :: "options \<Rightarrow> bool" where
  "roomTier opts = (includesStr (scopeOrDefault opts) (js ''room'') \<and> truthy (roomId opts))"

text \<open>A preference record is stored for the caller's (given) identifier.\<close>

definition hasUserPreference :: "'a ModelManager_scheme \<Rightarrow> 'b context_scheme \<Rightarrow> bool" where
  "hasUserPreference this ctx = (truthy (userId ctx) \<and> userPreferences this (the (userId ctx)) \<noteq> None)"

definition hasRoomPreference :: "'a ModelManager_scheme \<Rightarrow> 'b context_scheme \<Rightarrow> bool" where
  "hasRoomPreference this ctx = (truthy (roomId ctx) \<and> roomPreferences this (the (roomId ctx)) \<noteq> None)"

text \<open>
  No record is stored under the empty identifier: \<open>switchModel\<close> writes a preference only
  for a truthy identifier, and the maps are loaded from the rows it wrote.
\<close>

definition keysGiven :: "'a ModelManager_scheme \<Rightarrow> bool" where
  "keysGiven this = (userPreferences this [] = None \<and> roomPreferences this [] = None)"

definition rowsGiven :: "ModelManager \<Rightarrow> bool" where
  "rowsGiven this =
     (keysGiven this \<and>
      (case db this of
         None \<Rightarrow> True
       | Some d \<Rightarrow> list_all (\<lambda>r. up_user_id r \<noteq> []) (user_model_preferences d) \<and>
                   list_all (\<lambda>r. rp_room_id r \<noteq> []) (room_model_preferences d)))"

section \<open>Intent detection\<close>

text \<open>
  An object used as a dictionary: its own properties in creation order. Assigning to an
  existing key keeps the key's place. Assigning an array to the key \<open>__proto__\<close> sets the
  object's prototype and creates no own property. \<open>Object.entries\<close> lists the keys that
  are array indices (canonical decimal numerals below \<open>2^32 - 1\<close>) first, in ascending
  numeric order, and then the other keys in creation order.
\<close>

type_synonym 'v jsobject = "(jsstring \<times> 'v) list"

fun objectPut :: "'v jsobject \<Rightarrow> jsstring \<Rightarrow> 'v \<Rightarrow> 'v jsobject" where
  "objectPut [] k v = [(k, v)]"
| "objectPut ((k', v') # ps) k v = (if k' = k then (k, v) # ps else (k', v') # objectPut ps k v)"

definition objectSet :: "'v jsobject \<Rightarrow> jsstring \<Rightarrow> 'v \<Rightarrow> 'v jsobject" where
  "objectSet ps k v = (if k = js ''__proto__'' then ps else objectPut ps k v)"

definition decimalValue :: "jsstring \<Rightarrow> nat" where
  "decimalValue k = foldl (\<lambda>a c. 10 * a + (c - 48)) 0 k"

definition isArrayIndex :: "jsstring \<Rightarrow> bool" where
  "isArrayIndex k =
     (k \<noteq> [] \<and> list_all isDigit k \<and> (k = [48] \<or> hd k \<noteq> 48) \<and> decimalValue k \<le> 4294967294)"

definition Object_entries :: "'v jsobject \<Rightarrow> (jsstring \<times> 'v) list" where
  "Object_entries obj =
     sort_key (\<lambda>p. decimalValue (fst p)) (filter (\<lambda>p. isArrayIndex (fst p)) obj) @
     filter (\<lambda>p. \<not> isArrayIndex (fst p)) obj"

text \<open>\<open>[...new Set(keywords)]\<close>: the first occurrence of every element, in order.\<close>

definition newSet :: "'a list \<Rightarrow> 'a list" where
  "newSet xs = foldl (\<lambda>acc x. if x \<in> set acc then acc else acc @ [x]) [] xs"

text \<open>\<open>getAvailableModels(filter)\<close>; the detectors call it without a filter.\<close>

definition getAvailableModels :: "'a ModelManager_scheme \<Rightarrow> jsstring \<Rightarrow> model list" where
  "getAvailableModels this flt =
     (if flt = [] then availableModels this
      else filter (\<lambda>m. includesStr (toLowerCase (model_id m)) (toLowerCase flt) \<or>
                        includesStr (toLowerCase (name m)) (toLowerCase flt) \<or>
                        includesStr (toLowerCase (provider m)) (toLowerCase flt))
             (availableModels this))"

definition getModelAliases :: "jsstring jsobject" where
  "getModelAliases =
     [(js ''fast'', js ''cc-oaicomp/DeepSeek-V3.2''),
      (js ''smart'', js ''cc-openai/gpt-5.3-codex''),
      (js ''code'', js ''cc-openai/gpt-5.3-codex''),
      (js ''chat'', js ''cc-oaicomp/Kimi-K2.5''),
      (js ''default'', js ''cc-oaicomp/Kimi-K2.5'')]"

text \<open>\<open>id.split('/')[1]?.toLowerCase()\<close>: \<open>undefined\<close> when the id has no slash.\<close>

definition modelNamePart :: "jsstring \<Rightarrow> jsstring option" where
  "modelNamePart mid = map_option toLowerCase (at (split 47 mid) 1)"

text \<open>The brand keywords pushed for a lower-cased display name.\<close>

definition brandKeywords :: "jsstring \<Rightarrow> jsstring list" where
  "brandKeywords displayName =
     (if includesStr displayName (js ''deepseek'')
      then [js ''deepseek'', [0x6df1, 0x5ea6, 0x6c42, 0x7d22]] else []) @
     (if includesStr displayName (js ''kimi'')
      then [js ''kimi'', [0x6708, 0x4e4b, 0x6697, 0x9762]] else []) @
     (if includesStr displayName (js ''gpt'')
      then [js ''gpt'', js ''openai'', js ''chatgpt''] else []) @
     (if includesStr displayName (js ''claude'')
      then [js ''claude'', js ''anthropic''] else []) @
     (if includesStr displayName (js ''gemini'')
      then [js ''gemini'', [0x8c37, 0x6b4c]] else [])"

text \<open>
  The second loop of both detectors: every alias whose model has a keyword list is
  pushed onto that list. The models the aliases name are not names of inherited
  properties, so the lookup reads own properties only.
\<close>

definition addAliases :: "(jsstring list) jsobject \<Rightarrow> (jsstring list) jsobject" where
  "addAliases modelKeywords =
     fold (\<lambda>p mk. case map_of mk (snd p) of
                     None \<Rightarrow> mk
                   | Some kws \<Rightarrow> objectSet mk (snd p) (kws @ [toLowerCase (fst p)]))
       (Object_entries getModelAliases) modelKeywords"

text \<open>
  The scope loop of both detectors, over the entries of the scope table: the first word
  of a scope found in the message sets the scope, and the loop stops as soon as the
  scope is not \<open>session\<close>.
\<close>

fun scopeLoop :: "jsstring \<Rightarrow> (jsstring \<times> jsstring list) list \<Rightarrow> jsstring \<Rightarrow> jsstring" where
  "scopeLoop lowerMessage [] detectedScope = detectedScope"
| "scopeLoop lowerMessage ((scp, scopeWords) # rest) detectedScope =
     (let detectedScope' = (if list_ex (includesStr lowerMessage) scopeWords then scp
                            else detectedScope)
      in if detectedScope' \<noteq> js ''session'' then detectedScope'
         else scopeLoop lowerMessage rest detectedScope')"

record switch_intent =
  intent :: jsstring
  intent_modelId :: jsstring
  intent_scope :: jsstring
  confidence :: jsstring

record scored_intent = switch_intent +
  matchedKeywords :: "jsstring list"

subsection \<open>The detector of the message handler\<close>

definition handlerSwitchKeywords :: "jsstring list" where
  "handlerSwitchKeywords =
     [[0x5207, 0x6362], [0x6362, 0x6210], [0x4f7f, 0x7528], [0x6539, 0x7528], [0x6539, 0x4e3a],
      [0x6362, 0x5230], [0x5207, 0x5230], [0x7528], [0x5207, 0x6362, 0x5230]]"

definition handlerScopeKeywords :: "(jsstring list) jsobject" where
  "handlerScopeKeywords =
     [(js ''session'', [[0x4f1a, 0x8bdd], [0x4e34, 0x65f6], [0x672c, 0x6b21], [0x8fd9, 0x6b21],
                        [0x5f53, 0x524d]]),
      (js ''user'', [[0x7528, 0x6237], [0x4e2a, 0x4eba], [0x6211, 0x7684], [0x81ea, 0x5df1],
                     [0x4e3a, 0x6211]]),
      (js ''room'', [[0x623f, 0x95f4], [0x7fa4, 0x804a], [0x8fd9, 0x91cc], [0x672c, 0x623f, 0x95f4]]),
      (js ''global'', [[0x5168, 0x5c40], [0x5168, 0x90e8], [0x6240, 0x6709], [0x7cfb, 0x7edf]])]"

definition handlerPermanentKeywords :: "jsstring list" where
  "handlerPermanentKeywords = [[0x6c38, 0x4e45], [0x4fdd, 0x5b58], [0x504f, 0x597d]]"

definition handlerKeywords :: "model \<Rightarrow> jsstring list" where
  "handlerKeywords m =
     (let modelName = (case modelNamePart (model_id m) of None \<Rightarrow> [] | Some s \<Rightarrow> s);
          displayName = toLowerCase (name m)
      in newSet ((if modelName \<noteq> [] then [modelName] else []) @ [displayName] @
                 brandKeywords displayName))"

text \<open>
  The matching loop: the first model one of whose keywords occurs in the message. The
  outer loop stops only on a truthy id.
\<close>

fun matchLoop ::
  "jsstring \<Rightarrow> (jsstring \<times> jsstring list) list \<Rightarrow> jsstring option \<times> jsstring list \<Rightarrow>
     jsstring option \<times> jsstring list" where
  "matchLoop lowerMessage [] st = st"
| "matchLoop lowerMessage ((modelId, keywords) # rest) st =
     (let st' = (if list_ex (includesStr lowerMessage) keywords then (Some modelId, keywords)
                 else st)
      in if truthy (fst st') then st' else matchLoop lowerMessage rest st')"

definition detectModelSwitchIntent ::
  "jsstring \<Rightarrow> 'a ModelManager_scheme \<Rightarrow> switch_intent option" where
  "detectModelSwitchIntent message modelManager =
     (let lowerMessage = toLowerCase message in
      if \<not> list_ex (includesStr lowerMessage) handlerSwitchKeywords then None
      else
        let modelKeywords =
              addAliases (fold (\<lambda>m mk. objectSet mk (model_id m) (handlerKeywords m))
                            (getAvailableModels modelManager []) []);
            matched = matchLoop lowerMessage (Object_entries modelKeywords) (None, []);
            detectedScope = scopeLoop lowerMessage (Object_entries handlerScopeKeywords)
                              (js ''session'')
        in if \<not> truthy (fst matched) then None
           else Some \<lparr>intent = js ''switch_model'',
                       intent_modelId = the (fst matched),
                       intent_scope =
                         (if list_ex (includesStr lowerMessage) handlerPermanentKeywords
                          then js ''user'' else detectedScope),
                       confidence =
                         (if list_ex (includesStr lowerMessage) (snd matched)
                          then js ''high'' else js ''medium'')\<rparr>)"

subsection \<open>The detector of the model manager\<close>

definition switchKeywords :: "jsstring list" where
  "switchKeywords =
     [[0x5207, 0x6362], [0x6362, 0x6210], [0x4f7f, 0x7528], [0x6539, 0x7528], [0x6539, 0x4e3a],
      [0x6362, 0x5230], [0x5207, 0x5230], [0x7528], [0x5207, 0x6362, 0x5230],
      js ''switch'', js ''use'', js ''change'', js ''set'', js ''select'', js ''choose'',
      [0x4fdd, 0x5b58], [0x504f, 0x597d], [0x8bbe, 0x7f6e], [0x8bbe, 0x4e3a], [0x6307, 0x5b9a],
      [0x9009, 0x53d6]]"

definition scopeKeywords :: "(jsstring list) jsobject" where
  "scopeKeywords =
     [(js ''session'', [[0x4f1a, 0x8bdd], [0x4e34, 0x65f6], [0x672c, 0x6b21], [0x8fd9, 0x6b21],
                        [0x5f53, 0x524d], js ''session'', js ''temporary'']),
      (js ''user'', [[0x7528, 0x6237], [0x4e2a, 0x4eba], [0x6211, 0x7684], [0x81ea, 0x5df1],
                     [0x4e3a, 0x6211], js ''user'', js ''personal'', js ''my'', js ''me'']),
      (js ''room'', [[0x623f, 0x95f4], [0x7fa4, 0x804a], [0x8fd9, 0x91cc], [0x672c, 0x623f, 0x95f4],
                     js ''room'', js ''chat'', js ''group'']),
      (js ''global'', [[0x5168, 0x5c40], [0x5168, 0x90e8], [0x6240, 0x6709], [0x7cfb, 0x7edf],
                       js ''global'', js ''all'', js ''system''])]"

definition permanentKeywords :: "jsstring list" where
  "permanentKeywords =
     [[0x6c38, 0x4e45], [0x4fdd, 0x5b58], [0x504f, 0x597d], js ''persistent'', js ''preference'']"

definition brandNames :: "jsstring list" where
  "brandNames =
     [js ''deepseek'', js ''kimi'', js ''gpt'', js ''openai'', js ''claude'', js ''gemini'',
      [0x6df1, 0x5ea6, 0x6c42, 0x7d22], [0x6708, 0x4e4b, 0x6697, 0x9762], [0x8c37, 0x6b4c]]"

text \<open>
  \<^verbatim>\<open>/^\d+\.\d+$/\<close> as a test, and the first match of \<^verbatim>\<open>/(\d+\.\d+)/\<close>: at a
  position the greedy \<^verbatim>\<open>\d+\<close> takes the whole run of digits, and giving digits back
  never helps, since the character after a shorter run is a digit and not the dot.
\<close>

definition isVersionToken :: "jsstring \<Rightarrow> bool" where
  "isVersionToken k =
     (takeWhile isDigit k \<noteq> [] \<and>
      (case dropWhile isDigit k of
         [] \<Rightarrow> False
       | c # rest \<Rightarrow> c = 46 \<and> rest \<noteq> [] \<and> list_all isDigit rest))"

definition versionAt :: "jsstring \<Rightarrow> jsstring option" where
  "versionAt s =
     (if takeWhile isDigit s = [] then None
      else (case dropWhile isDigit s of
              [] \<Rightarrow> None
            | c # rest \<Rightarrow>
               if c = 46 \<and> takeWhile isDigit rest \<noteq> []
               then Some (takeWhile isDigit s @ 46 # takeWhile isDigit rest)
               else None))"

fun versionMatch :: "jsstring \<Rightarrow> jsstring option" where
  "versionMatch [] = None"
| "versionMatch (c # cs) =
     (case versionAt (c # cs) of Some v \<Rightarrow> Some v | None \<Rightarrow> versionMatch cs)"

definition managerKeywords :: "model \<Rightarrow> jsstring list" where
  "managerKeywords m =
     (let modelName = (case modelNamePart (model_id m) of None \<Rightarrow> [] | Some s \<Rightarrow> s);
          displayName = toLowerCase (name m)
      in newSet ((if modelName \<noteq> [] then [modelName] else []) @ [displayName] @
                 brandKeywords displayName @
                 (case versionMatch displayName of None \<Rightarrow> [] | Some v \<Rightarrow> [v])))"

text \<open>The points of a matched keyword, in the order of the \<open>if\<close> chain.\<close>

definition keywordPoints :: "jsstring \<Rightarrow> jsstring \<Rightarrow> int" where
  "keywordPoints modelId keyword =
     (if isVersionToken keyword then 10
      else if includesStr keyword [47] then 8
      else if modelNamePart modelId = Some keyword then 6
      else if keyword \<in> set brandNames then 4
      else 2)"

text \<open>The inner loop: the score and the matched keywords of one model.\<close>

fun scoreLoop ::
  "jsstring \<Rightarrow> jsstring \<Rightarrow> jsstring list \<Rightarrow> int \<times> jsstring list \<Rightarrow> int \<times> jsstring list" where
  "scoreLoop lowerMessage modelId [] st = st"
| "scoreLoop lowerMessage modelId (keyword # rest) st =
     scoreLoop lowerMessage modelId rest
       (if includesStr lowerMessage keyword
        then (fst st + keywordPoints modelId keyword, snd st @ [keyword])
        else st)"

text \<open>
  The outer loop, on \<open>(matchedModelId, matchedModelKeywords, bestScore)\<close>: a model takes
  over when its score is positive and above the best one so far.
\<close>

fun bestLoop ::
  "jsstring \<Rightarrow> (jsstring \<times> jsstring list) list \<Rightarrow> jsstring option \<times> jsstring list \<times> int \<Rightarrow>
     jsstring option \<times> jsstring list \<times> int" where
  "bestLoop lowerMessage [] st = st"
| "bestLoop lowerMessage ((modelId, keywords) # rest) st =
     (let scored = scoreLoop lowerMessage modelId keywords (0, [])
      in bestLoop lowerMessage rest
           (if fst scored > 0 \<and> fst scored > snd (snd st)
            then (Some modelId, snd scored, fst scored)
            else st))"

definition detectSwitchIntent :: "'a ModelManager_scheme \<Rightarrow> jsstring \<Rightarrow> scored_intent option" where
  "detectSwitchIntent this message =
     (let lowerMessage = toLowerCase message in
      if \<not> list_ex (includesStr lowerMessage) switchKeywords then None
      else
        let modelKeywords =
              addAliases (fold (\<lambda>m mk. objectSet mk (model_id m) (managerKeywords m))
                            (getAvailableModels this []) []);
            best = bestLoop lowerMessage (Object_entries modelKeywords) (None, [], - 1);
            bestScore = snd (snd best);
            detectedScope = scopeLoop lowerMessage (Object_entries scopeKeywords) (js ''session'')
        in if \<not> truthy (fst best) then None
           else Some \<lparr>intent = js ''switch_model'',
                       intent_modelId = the (fst best),
                       intent_scope =
                         (if list_ex (includesStr lowerMessage) permanentKeywords
                          then js ''user'' else detectedScope),
                       confidence =
                         (if bestScore \<ge> 10 then js ''high''
                          else if bestScore \<ge> 5 then js ''medium'' else js ''low''),
                       matchedKeywords = fst (snd best)\<rparr>)"

subsection \<open>The score of a model\<close>



subsection \<open>The score as the specification words it\<close>

text \<open>
  The tiers of the specification, as a table: a version number (digits, a dot, digits)
  counts 10, a keyword with a slash 8, the name part of the model's id 6, a brand
  synonym 4, an alias (or any other keyword) 2. A keyword counts for the first of these
  kinds that it fits. The brand synonyms are the eleven that the specification lists:
  \<open>deepseek\<close> and U+6DF1 U+5EA6 U+6C42 U+7D22, \<open>kimi\<close> and U+6708 U+4E4B U+6697 U+9762,
  \<open>gpt\<close>, \<open>openai\<close> and \<open>chatgpt\<close>, \<open>claude\<close> and \<open>anthropic\<close>, \<open>gemini\<close> and
  U+8C37 U+6B4C.
\<close>

datatype keywordKind = VersionNumber | WithSlash | ModelName | BrandSynonym | AliasOrOther


definition isVersionNumber :: "jsstring \<Rightarrow> bool" where
  "isVersionNumber k =
     (\<exists>a b. k = a @ 46 # b \<and> a \<noteq> [] \<and> b \<noteq> [] \<and> list_all isDigit a \<and> list_all isDigit b)"

definition brandSynonyms :: "jsstring list" where
  "brandSynonyms =
     [js ''deepseek'', [0x6df1, 0x5ea6, 0x6c42, 0x7d22],
      js ''kimi'', [0x6708, 0x4e4b, 0x6697, 0x9762],
      js ''gpt'', js ''openai'', js ''chatgpt'',
      js ''claude'', js ''anthropic'',
      js ''gemini'', [0x8c37, 0x6b4c]]"

definition keywordKind :: "jsstring \<Rightarrow> jsstring \<Rightarrow> keywordKind" where
  "keywordKind modelId keyword =
     (if isVersionNumber keyword then VersionNumber
      else if 47 \<in> set keyword then WithSlash
      else if modelNamePart modelId = Some keyword then ModelName
      else if keyword \<in> set brandSynonyms then BrandSynonym
      else AliasOrOther)"




section \<open>Properties of resolution and switching\<close>

subsection \<open>Strings and the format test\<close>

lemma includesStr_sublist: "includesStr s k = sublist k s"
  by (induction s) (auto simp: sublist_Cons_right)

lemma not_isProviderChar_slash: "\<not> isProviderChar 47"
  by (simp add: isProviderChar_def isAlnum_def)

text \<open>
  The scanner accepts exactly the language of the regular expression: a non-empty run of
  \<open>[a-zA-Z0-9_-]\<close>, a slash, a non-empty run of \<open>[a-zA-Z0-9._-]\<close>.
\<close>

lemma validateModelIdFormat_iff:
  "validateModelIdFormat s \<longleftrightarrow>
     (\<exists>p n. s = p @ 47 # n \<and> p \<noteq> [] \<and> n \<noteq> [] \<and>
            list_all isProviderChar p \<and> list_all isNameChar n)"
proof
  assume v: "validateModelIdFormat s"
  then obtain c n where d: "dropWhile isProviderChar s = c # n"
    by (auto simp: validateModelIdFormat_def split: list.splits)
  with v have c: "c = 47" and n: "n \<noteq> []" "list_all isNameChar n"
    and p: "takeWhile isProviderChar s \<noteq> []"
    by (auto simp: validateModelIdFormat_def)
  have "s = takeWhile isProviderChar s @ 47 # n"
    using takeWhile_dropWhile_id [of isProviderChar s] d c by simp
  moreover have "list_all isProviderChar (takeWhile isProviderChar s)"
    by (simp add: list_all_iff) (meson set_takeWhileD)
  ultimately show "\<exists>p n. s = p @ 47 # n \<and> p \<noteq> [] \<and> n \<noteq> [] \<and>
            list_all isProviderChar p \<and> list_all isNameChar n"
    using p n by blast
next
  assume "\<exists>p n. s = p @ 47 # n \<and> p \<noteq> [] \<and> n \<noteq> [] \<and>
            list_all isProviderChar p \<and> list_all isNameChar n"
  then obtain p n where s: "s = p @ 47 # n" and p: "p \<noteq> []" "list_all isProviderChar p"
    and n: "n \<noteq> []" "list_all isNameChar n" by blast
  have t: "takeWhile isProviderChar s = p"
    using s p not_isProviderChar_slash by (simp add: list_all_iff)
  have d: "dropWhile isProviderChar s = 47 # n"
    using s p not_isProviderChar_slash by (simp add: list_all_iff)
  show "validateModelIdFormat s"
    using t d p n by (simp add: validateModelIdFormat_def)
qed

lemmas char_defs = js_def isProviderChar_def isNameChar_def isAlnum_def isDigit_def

lemmas manager_defs = defaultManager_def defaultManagerDb_def emptyDatabase_def
  getDefaultModels_def isModelAvailable_def validateModelIdFormat_def truthy_def orNull_def
  scopeOrDefault_def

lemmas switch_defs = switchModel_def switchSession_def switchUser_def switchRoom_def
  recordModelUsage_def replaceUserPreference_def replaceRoomPreference_def insertUsage_def

subsection \<open>The steps of \<open>switchModel\<close>\<close>

lemma switchUser_memory:
  assumes "switchUser now scp modelId opts this = (e, this')"
  shows "currentModel this' = currentModel this"
    and "roomPreferences this' = roomPreferences this"
    and "availableModels this' = availableModels this"
    and "userPreferences this' =
           (if includesStr scp (js ''user'') \<and> truthy (userId opts)
            then (userPreferences this)(the (userId opts) \<mapsto> modelId)
            else userPreferences this)"
  using assms
  by (auto simp: switchUser_def Let_def split: if_splits option.splits sum.splits)

lemma switchRoom_memory:
  assumes "switchRoom now scp modelId opts this = (e, this')"
  shows "currentModel this' = currentModel this"
    and "userPreferences this' = userPreferences this"
    and "availableModels this' = availableModels this"
    and "roomPreferences this' =
           (if includesStr scp (js ''room'') \<and> truthy (roomId opts)
            then (roomPreferences this)(the (roomId opts) \<mapsto> modelId)
            else roomPreferences this)"
  using assms
  by (auto simp: switchRoom_def Let_def split: if_splits option.splits sum.splits)

lemma recordModelUsage_memory:
  "currentModel (recordModelUsage now this modelId ctx) = currentModel this"
  "userPreferences (recordModelUsage now this modelId ctx) = userPreferences this"
  "roomPreferences (recordModelUsage now this modelId ctx) = roomPreferences this"
  "availableModels (recordModelUsage now this modelId ctx) = availableModels this"
  by (auto simp: recordModelUsage_def split: option.splits sum.splits)

lemma switchModel_Inr_steps:
  assumes "switchModel now this modelId opts = (Inr res, this')"
  obtains this2 this3 where
    "validateModelIdFormat modelId" "isModelAvailable this modelId"
    "res = \<lparr>success = True,
            previous = (if sessionTier opts then Some (currentModel this) else None),
            current = modelId\<rparr>"
    "switchUser now (scopeOrDefault opts) modelId opts
        (if sessionTier opts then this\<lparr>currentModel := modelId\<rparr> else this) = (None, this2)"
    "switchRoom now (scopeOrDefault opts) modelId opts this2 = (None, this3)"
    "this' = recordModelUsage now this3 modelId opts"
  using assms
  by (auto simp: switchModel_def switchSession_def sessionTier_def Let_def
           split: if_splits option.splits prod.splits)

lemma switchModel_Inr:
  assumes "switchModel now this modelId opts = (Inr res, this')"
  shows "res = \<lparr>success = True,
                previous = (if sessionTier opts then Some (currentModel this) else None),
                current = modelId\<rparr>"
    and "currentModel this' = (if sessionTier opts then modelId else currentModel this)"
    and "userPreferences this' =
           (if userTier opts then (userPreferences this)(the (userId opts) \<mapsto> modelId)
            else userPreferences this)"
    and "roomPreferences this' =
           (if roomTier opts then (roomPreferences this)(the (roomId opts) \<mapsto> modelId)
            else roomPreferences this)"
    and "validateModelIdFormat modelId" and "isModelAvailable this modelId"
proof -
  from assms obtain this2 this3 where
    v: "validateModelIdFormat modelId" "isModelAvailable this modelId"
    and r: "res = \<lparr>success = True,
            previous = (if sessionTier opts then Some (currentModel this) else None),
            current = modelId\<rparr>"
    and u: "switchUser now (scopeOrDefault opts) modelId opts
        (if sessionTier opts then this\<lparr>currentModel := modelId\<rparr> else this) = (None, this2)"
    and m: "switchRoom now (scopeOrDefault opts) modelId opts this2 = (None, this3)"
    and t: "this' = recordModelUsage now this3 modelId opts"
    by (rule switchModel_Inr_steps)
  show "res = \<lparr>success = True,
                previous = (if sessionTier opts then Some (currentModel this) else None),
                current = modelId\<rparr>" by (rule r)
  show "validateModelIdFormat modelId" "isModelAvailable this modelId" by (rule v)+
  show "currentModel this' = (if sessionTier opts then modelId else currentModel this)"
    using switchUser_memory(1) [OF u] switchRoom_memory(1) [OF m] t
    by (simp add: recordModelUsage_memory)
  show "userPreferences this' =
           (if userTier opts then (userPreferences this)(the (userId opts) \<mapsto> modelId)
            else userPreferences this)"
    using switchUser_memory(4) [OF u] switchRoom_memory(2) [OF m] t
    by (simp add: recordModelUsage_memory userTier_def)
  show "roomPreferences this' =
           (if roomTier opts then (roomPreferences this)(the (roomId opts) \<mapsto> modelId)
            else roomPreferences this)"
    using switchUser_memory(2) [OF u] switchRoom_memory(4) [OF m] t
    by (simp add: recordModelUsage_memory roomTier_def)
qed

text \<open>
  The statement after the three blocks cannot make the call fail: when the identifier is
  valid and the preference statements do not throw, the call returns.
\<close>

lemma switchModel_returns:
  assumes "validateModelIdFormat modelId" and "isModelAvailable this modelId"
    and "\<And>d. db this = Some d \<Longrightarrow>
           \<not> db_fails d ReplaceUserPreference \<and> \<not> db_fails d ReplaceRoomPreference"
  shows "\<exists>res this'. switchModel now this modelId opts = (Inr res, this')"
proof (cases "db this")
  case None
  then show ?thesis
    using assms(1,2)
    by (simp add: switch_defs isModelAvailable_def Let_def split: prod.splits option.splits)
next
  case (Some d)
  with assms(3) have "\<not> db_fails d ReplaceUserPreference" "\<not> db_fails d ReplaceRoomPreference"
    by auto
  with Some show ?thesis
    using assms(1,2)
    by (auto simp: switch_defs isModelAvailable_def Let_def split: prod.splits option.splits)
qed

subsection \<open>No record under the empty identifier\<close>

lemma rowsGiven_defaultManager: "rowsGiven defaultManager" "rowsGiven defaultManagerDb"
  by (simp_all add: rowsGiven_def keysGiven_def manager_defs)

lemma rowsGiven_switchUser:
  "rowsGiven this \<Longrightarrow> switchUser now scp modelId opts this = (e, this') \<Longrightarrow> rowsGiven this'"
  by (auto simp: rowsGiven_def keysGiven_def switchUser_def replaceUserPreference_def truthy_def Let_def
           list_all_iff split: option.splits if_splits)

lemma rowsGiven_switchRoom:
  "rowsGiven this \<Longrightarrow> switchRoom now scp modelId opts this = (e, this') \<Longrightarrow> rowsGiven this'"
  by (auto simp: rowsGiven_def keysGiven_def switchRoom_def replaceRoomPreference_def truthy_def Let_def
           list_all_iff split: option.splits if_splits)

lemma rowsGiven_recordModelUsage:
  "rowsGiven this \<Longrightarrow> rowsGiven (recordModelUsage now this modelId ctx)"
  by (auto simp: rowsGiven_def keysGiven_def recordModelUsage_def insertUsage_def split: option.splits)

lemma rowsGiven_currentModel: "rowsGiven this \<Longrightarrow> rowsGiven (this\<lparr>currentModel := m\<rparr>)"
  by (simp add: rowsGiven_def keysGiven_def)

lemma rowsGiven_switchModel:
  assumes "rowsGiven this"
  shows "rowsGiven (snd (switchModel now this modelId opts))"
proof -
  obtain r this1 where s: "switchSession (scopeOrDefault opts) modelId
      (\<lparr>success = True, previous = None, current = modelId\<rparr>, this) = (r, this1)"
    by (cases "switchSession (scopeOrDefault opts) modelId
      (\<lparr>success = True, previous = None, current = modelId\<rparr>, this)")
  obtain e2 this2 where u: "switchUser now (scopeOrDefault opts) modelId opts this1 = (e2, this2)"
    by (cases "switchUser now (scopeOrDefault opts) modelId opts this1")
  obtain e3 this3 where m: "switchRoom now (scopeOrDefault opts) modelId opts this2 = (e3, this3)"
    by (cases "switchRoom now (scopeOrDefault opts) modelId opts this2")
  have k1: "rowsGiven this1"
    using s assms by (auto simp: switchSession_def rowsGiven_currentModel split: if_splits)
  have k2: "rowsGiven this2" by (rule rowsGiven_switchUser [OF k1 u])
  have k3: "rowsGiven this3" by (rule rowsGiven_switchRoom [OF k2 m])
  have k4: "rowsGiven (recordModelUsage now this3 modelId opts)"
    by (rule rowsGiven_recordModelUsage [OF k3])
  show ?thesis
    using assms k2 k3 k4 s u m
    by (simp add: switchModel_def Let_def split: option.splits)
qed

lemma fold_upd_other:
  "(\<And>r. r \<in> set rows \<Longrightarrow> key r \<noteq> k) \<Longrightarrow>
     fold (\<lambda>row m. m(key row \<mapsto> val row)) rows m k = m k"
  by (induction rows arbitrary: m) auto

lemma rowsGiven_loadPreferences:
  assumes "rowsGiven this"
  shows "rowsGiven (loadPreferences this)"
  using assms
  by (auto simp: rowsGiven_def keysGiven_def loadPreferences_def list_all_iff fold_upd_other Let_def
           split: option.splits)

lemma keysGiven_rowsGiven: "rowsGiven this \<Longrightarrow> keysGiven this"
  by (simp add: rowsGiven_def)

subsection \<open>Resolution order\<close>

text \<open>
  C1. When no record is stored under the empty identifier (which holds for every manager
  reached from the constructor by loading and switching: \<open>rowsGiven_defaultManager\<close>,
  \<open>rowsGiven_loadPreferences\<close>, \<open>rowsGiven_switchModel\<close>), \<open>getCurrentModel\<close> returns the
  user preference's model when a user preference record exists for the user, otherwise
  the room preference's model when a room preference record exists for the room,
  otherwise the session default. With room set to A and user set to B it returns B.
\<close>

theorem getCurrentModel_precedence:
  assumes "keysGiven this"
  shows "getCurrentModel this ctx = effectiveModel_spec this (userId ctx) (roomId ctx)"
  using assms
  by (cases "userId ctx"; cases "roomId ctx")
     (auto simp: getCurrentModel_def effectiveModel_spec_def keysGiven_def truthy_def
           split: option.splits)

theorem getCurrentModel_precedence_witness:
  "keysGiven
     (snd (switchModel 2
        (snd (switchModel 1 defaultManager (js ''cc-oaicomp/DeepSeek-V3.2'')
           \<lparr>userId = Some (js ''@a:hs''), roomId = Some (js ''!r:hs''), scope = Some (js ''room'')\<rparr>))
        (js ''cc-openai/gpt-5.3-codex'')
        \<lparr>userId = Some (js ''@a:hs''), roomId = Some (js ''!r:hs''), scope = Some (js ''user'')\<rparr>)) \<and>
   getCurrentModel
     (snd (switchModel 2
        (snd (switchModel 1 defaultManager (js ''cc-oaicomp/DeepSeek-V3.2'')
           \<lparr>userId = Some (js ''@a:hs''), roomId = Some (js ''!r:hs''), scope = Some (js ''room'')\<rparr>))
        (js ''cc-openai/gpt-5.3-codex'')
        \<lparr>userId = Some (js ''@a:hs''), roomId = Some (js ''!r:hs''), scope = Some (js ''user'')\<rparr>))
     \<lparr>userId = Some (js ''@a:hs''), roomId = Some (js ''!r:hs'')\<rparr> = js ''cc-openai/gpt-5.3-codex''"
proof -
  let ?m = "snd (switchModel 2
        (snd (switchModel 1 defaultManager (js ''cc-oaicomp/DeepSeek-V3.2'')
           \<lparr>userId = Some (js ''@a:hs''), roomId = Some (js ''!r:hs''), scope = Some (js ''room'')\<rparr>))
        (js ''cc-openai/gpt-5.3-codex'')
        \<lparr>userId = Some (js ''@a:hs''), roomId = Some (js ''!r:hs''), scope = Some (js ''user'')\<rparr>)"
  have k: "keysGiven ?m"
    by (intro keysGiven_rowsGiven rowsGiven_switchModel rowsGiven_defaultManager)
  have u: "userPreferences ?m (js ''@a:hs'') = Some (js ''cc-openai/gpt-5.3-codex'')"
    by (simp add: switch_defs manager_defs char_defs)
  show ?thesis
    using k u getCurrentModel_precedence [OF k, of "\<lparr>userId = Some (js ''@a:hs''), roomId = Some (js ''!r:hs'')\<rparr>"]
    by (simp add: effectiveModel_spec_def)
qed

subsection \<open>Read-your-write\<close>

text \<open>
  C2 fails as stated: a switch at the session tier does not change what a caller with a
  stored user preference resolves to. After the user \<open>@a:hs\<close> has chosen Kimi as the user
  preference, a session switch to DeepSeek succeeds and the user still resolves to Kimi.
\<close>

theorem switchModel_read_your_write_counterexample:
  "fst (switchModel 2
          (snd (switchModel 1 defaultManager (js ''cc-oaicomp/Kimi-K2.5'')
             \<lparr>userId = Some (js ''@a:hs''), roomId = Some (js ''!r:hs''), scope = Some (js ''user'')\<rparr>))
          (js ''cc-oaicomp/DeepSeek-V3.2'')
          \<lparr>userId = Some (js ''@a:hs''), roomId = Some (js ''!r:hs''), scope = Some (js ''session'')\<rparr>)
     = Inr \<lparr>success = True, previous = Some (js ''cc-oaicomp/Kimi-K2.5''),
             current = js ''cc-oaicomp/DeepSeek-V3.2''\<rparr> \<and>
   getCurrentModel
     (snd (switchModel 2
          (snd (switchModel 1 defaultManager (js ''cc-oaicomp/Kimi-K2.5'')
             \<lparr>userId = Some (js ''@a:hs''), roomId = Some (js ''!r:hs''), scope = Some (js ''user'')\<rparr>))
          (js ''cc-oaicomp/DeepSeek-V3.2'')
          \<lparr>userId = Some (js ''@a:hs''), roomId = Some (js ''!r:hs''), scope = Some (js ''session'')\<rparr>))
     \<lparr>userId = Some (js ''@a:hs''), roomId = Some (js ''!r:hs'')\<rparr>
     = js ''cc-oaicomp/Kimi-K2.5'' \<and>
   js ''cc-oaicomp/Kimi-K2.5'' \<noteq> js ''cc-oaicomp/DeepSeek-V3.2''"
  by (simp add: switch_defs manager_defs char_defs getCurrentModel_def)

text \<open>
  C2, amended. After a successful \<open>switchModel\<close> of \<open>m\<close>, resolving with the same user
  and room yields \<open>m\<close> when the scope contains \<open>user\<close> and a user is given; or when it
  contains \<open>room\<close>, a room is given and no user preference is stored for the user; or
  when it contains \<open>session\<close> or \<open>all\<close> and neither a user preference for the user nor
  a room preference for the room is stored.
\<close>

theorem switchModel_read_your_write:
  assumes "switchModel now this modelId opts = (Inr res, this')"
    and "userTier opts \<or> (roomTier opts \<and> \<not> hasUserPreference this opts) \<or>
         (sessionTier opts \<and> \<not> hasUserPreference this opts \<and> \<not> hasRoomPreference this opts)"
  shows "getCurrentModel this' \<lparr>userId = userId opts, roomId = roomId opts\<rparr> = modelId"
  using assms(2) switchModel_Inr(2,3,4) [OF assms(1)]
  by (auto simp: getCurrentModel_def userTier_def roomTier_def hasUserPreference_def
        hasRoomPreference_def split: option.splits)

theorem switchModel_read_your_write_witness:
  "getCurrentModel
     (snd (switchModel 1 defaultManager (js ''cc-oaicomp/DeepSeek-V3.2'')
        \<lparr>userId = Some (js ''@a:hs''), roomId = Some (js ''!r:hs''), scope = Some (js ''room'')\<rparr>))
     \<lparr>userId = Some (js ''@a:hs''), roomId = Some (js ''!r:hs'')\<rparr>
     = js ''cc-oaicomp/DeepSeek-V3.2''"
proof -
  let ?o = "\<lparr>userId = Some (js ''@a:hs''), roomId = Some (js ''!r:hs''), scope = Some (js ''room'')\<rparr>"
  let ?r = "switchModel 1 defaultManager (js ''cc-oaicomp/DeepSeek-V3.2'') ?o"
  have s: "?r = (Inr \<lparr>success = True, previous = None, current = js ''cc-oaicomp/DeepSeek-V3.2''\<rparr>, snd ?r)"
    by (simp add: switch_defs manager_defs char_defs)
  have h: "userTier ?o \<or> (roomTier ?o \<and> \<not> hasUserPreference defaultManager ?o) \<or>
         (sessionTier ?o \<and> \<not> hasUserPreference defaultManager ?o \<and> \<not> hasRoomPreference defaultManager ?o)"
    by (simp add: roomTier_def hasUserPreference_def manager_defs char_defs)
  show ?thesis
    using switchModel_read_your_write [OF s h] by simp
qed

text \<open>
  The scope \<open>global\<close>, which the handler's help lists and both detectors can return,
  contains none of the four words \<open>switchModel\<close> looks for: the call succeeds and writes
  no tier.
\<close>

lemma switchModel_global_scope:
  "switchModel 1 defaultManager (js ''cc-oaicomp/DeepSeek-V3.2'')
     \<lparr>userId = Some (js ''@a:hs''), roomId = Some (js ''!r:hs''), scope = Some (js ''global'')\<rparr>
   = (Inr \<lparr>success = True, previous = None, current = js ''cc-oaicomp/DeepSeek-V3.2''\<rparr>,
      defaultManager)"
  by (simp add: switch_defs manager_defs char_defs)

subsection \<open>The returned pair\<close>

text \<open>
  C3 fails as stated: with the scope \<open>user\<close> the call succeeds and \<open>previous\<close> is \<open>null\<close>,
  not the session default (Kimi) that was current before the call.
\<close>

theorem switchModel_previous_counterexample:
  "fst (switchModel 1 defaultManager (js ''cc-oaicomp/DeepSeek-V3.2'')
          \<lparr>userId = Some (js ''@a:hs''), roomId = Some (js ''!r:hs''), scope = Some (js ''user'')\<rparr>)
     = Inr \<lparr>success = True, previous = None, current = js ''cc-oaicomp/DeepSeek-V3.2''\<rparr> \<and>
   currentModel defaultManager = js ''cc-oaicomp/Kimi-K2.5''"
  by (simp add: switch_defs manager_defs char_defs)

text \<open>
  C3, amended. For every successful \<open>switchModel\<close> call, \<open>current\<close> is the switched model
  id; \<open>previous\<close> is the session default that was current before the call when the scope
  contains \<open>session\<close> or \<open>all\<close> (and the session default is then the switched id), and
  \<open>null\<close> otherwise (and the session default is then unchanged).
\<close>

theorem switchModel_previous_current:
  assumes "switchModel now this modelId opts = (Inr res, this')"
  shows "current res = modelId \<and>
         previous res = (if sessionTier opts then Some (currentModel this) else None) \<and>
         currentModel this' = (if sessionTier opts then modelId else currentModel this)"
  using switchModel_Inr(1,2) [OF assms] by simp

theorem switchModel_previous_current_witness:
  "fst (switchModel 1 defaultManager (js ''cc-oaicomp/DeepSeek-V3.2'')
          \<lparr>userId = Some (js ''@a:hs''), roomId = Some (js ''!r:hs''), scope = None\<rparr>)
     = Inr \<lparr>success = True, previous = Some (currentModel defaultManager),
             current = js ''cc-oaicomp/DeepSeek-V3.2''\<rparr> \<and>
   currentModel (snd (switchModel 1 defaultManager (js ''cc-oaicomp/DeepSeek-V3.2'')
          \<lparr>userId = Some (js ''@a:hs''), roomId = Some (js ''!r:hs''), scope = None\<rparr>))
     = js ''cc-oaicomp/DeepSeek-V3.2''"
proof -
  let ?o = "\<lparr>userId = Some (js ''@a:hs''), roomId = Some (js ''!r:hs''), scope = None\<rparr>"
  let ?r = "switchModel 1 defaultManager (js ''cc-oaicomp/DeepSeek-V3.2'') ?o"
  have s: "?r = (Inr \<lparr>success = True, previous = Some (js ''cc-oaicomp/Kimi-K2.5''),
                   current = js ''cc-oaicomp/DeepSeek-V3.2''\<rparr>, snd ?r)"
    by (simp add: switch_defs manager_defs char_defs)
  have t: "sessionTier ?o"
    by (simp add: sessionTier_def manager_defs char_defs)
  have c: "currentModel defaultManager = js ''cc-oaicomp/Kimi-K2.5''"
    by (simp add: defaultManager_def)
  have f: "fst ?r = Inr \<lparr>success = True, previous = Some (js ''cc-oaicomp/Kimi-K2.5''),
                   current = js ''cc-oaicomp/DeepSeek-V3.2''\<rparr>"
    by (subst s) simp
  show ?thesis
    using switchModel_previous_current [OF s] t c f by simp
qed

subsection \<open>Format rejection\<close>

text \<open>
  C5 fails as stated: the first token may not contain a dot. \<open>a.b/c\<close> is two tokens of
  letters and a dot around one slash, and \<open>switchModel\<close> rejects it with \<open>InvalidFormat\<close>.
\<close>

theorem switchModel_format_counterexample:
  "js ''a.b/c'' = js ''a.b'' @ 47 # js ''c'' \<and>
   list_all isNameChar (js ''a.b'') \<and> list_all isNameChar (js ''c'') \<and>
   fst (switchModel 1 defaultManager (js ''a.b/c'')
          \<lparr>userId = Some (js ''@a:hs''), roomId = Some (js ''!r:hs''), scope = None\<rparr>)
     = Inl (InvalidFormat (js ''a.b/c''))"
  by (simp add: switch_defs manager_defs char_defs)

text \<open>
  C5, amended. \<open>switchModel\<close> fails with \<open>InvalidFormat\<close> exactly on the ids that are not a
  non-empty token of letters, digits, \<open>_\<close> and \<open>-\<close>, one slash, and a non-empty token of
  letters, digits, \<open>.\<close>, \<open>_\<close> and \<open>-\<close>. The rejection comes before any catalog lookup or
  storage access: it is the same for every catalog and database, and the manager is
  left as it was.
\<close>

theorem switchModel_InvalidFormat:
  "((\<exists>e. fst (switchModel now this modelId opts) = Inl (InvalidFormat e)) \<longleftrightarrow>
      \<not> (\<exists>p n. modelId = p @ 47 # n \<and> p \<noteq> [] \<and> n \<noteq> [] \<and>
               list_all isProviderChar p \<and> list_all isNameChar n)) \<and>
   (\<not> (\<exists>p n. modelId = p @ 47 # n \<and> p \<noteq> [] \<and> n \<noteq> [] \<and>
               list_all isProviderChar p \<and> list_all isNameChar n) \<longrightarrow>
      switchModel now this modelId opts = (Inl (InvalidFormat modelId), this))"
proof -
  have a: "\<not> validateModelIdFormat modelId \<Longrightarrow>
             switchModel now this modelId opts = (Inl (InvalidFormat modelId), this)"
    by (simp add: switchModel_def)
  have b: "validateModelIdFormat modelId \<Longrightarrow>
             fst (switchModel now this modelId opts) \<noteq> Inl (InvalidFormat e)" for e
    by (auto simp: switch_defs Let_def split: prod.splits option.splits sum.splits)
  show ?thesis
    unfolding validateModelIdFormat_iff [symmetric]
    using a b by (cases "validateModelIdFormat modelId") auto
qed

theorem switchModel_InvalidFormat_witness:
  "switchModel 1 defaultManagerDb (js ''a b/c'')
      \<lparr>userId = Some (js ''@a:hs''), roomId = Some (js ''!r:hs''), scope = Some (js ''user'')\<rparr>
     = (Inl (InvalidFormat (js ''a b/c'')), defaultManagerDb) \<and>
   switchModel 1 defaultManagerDb (js ''nomodel'')
      \<lparr>userId = Some (js ''@a:hs''), roomId = Some (js ''!r:hs''), scope = Some (js ''user'')\<rparr>
     = (Inl (InvalidFormat (js ''nomodel'')), defaultManagerDb) \<and>
   switchModel 1 defaultManagerDb (js ''a/b/c'')
      \<lparr>userId = Some (js ''@a:hs''), roomId = Some (js ''!r:hs''), scope = Some (js ''user'')\<rparr>
     = (Inl (InvalidFormat (js ''a/b/c'')), defaultManagerDb)"
proof -
  let ?o = "\<lparr>userId = Some (js ''@a:hs''), roomId = Some (js ''!r:hs''), scope = Some (js ''user'')\<rparr>"
  have n: "\<not> (\<exists>p n. s = p @ 47 # n \<and> p \<noteq> [] \<and> n \<noteq> [] \<and>
               list_all isProviderChar p \<and> list_all isNameChar n)"
    if "\<not> validateModelIdFormat s" for s
    using that by (simp add: validateModelIdFormat_iff)
  have 1: "\<not> validateModelIdFormat (js ''a b/c'')"
    and 2: "\<not> validateModelIdFormat (js ''nomodel'')"
    and 3: "\<not> validateModelIdFormat (js ''a/b/c'')"
    by (simp_all add: validateModelIdFormat_def char_defs)
  show ?thesis
    using switchModel_InvalidFormat [of 1 defaultManagerDb "js ''a b/c''" ?o]
      switchModel_InvalidFormat [of 1 defaultManagerDb "js ''nomodel''" ?o]
      switchModel_InvalidFormat [of 1 defaultManagerDb "js ''a/b/c''" ?o]
      n [OF 1] n [OF 2] n [OF 3]
    by blast
qed

subsection \<open>Telemetry failures\<close>

text \<open>
  C9. When the identifier passes the format and catalog checks and the preference
  statements do not throw, a failing usage insert does not surface: \<open>switchModel\<close>
  returns its success object, the session default and the two preference maps are
  updated as the scope asks, and the usage table is as it was.
\<close>

theorem switchModel_usage_failure_swallowed:
  assumes "validateModelIdFormat modelId" and "isModelAvailable this modelId"
    and "db this = Some d" and "db_fails d InsertUsage"
    and "\<not> db_fails d ReplaceUserPreference" and "\<not> db_fails d ReplaceRoomPreference"
  shows "\<exists>this' d'.
           switchModel now this modelId opts =
             (Inr \<lparr>success = True,
                   previous = (if sessionTier opts then Some (currentModel this) else None),
                   current = modelId\<rparr>, this') \<and>
           currentModel this' = (if sessionTier opts then modelId else currentModel this) \<and>
           userPreferences this' =
             (if userTier opts then (userPreferences this)(the (userId opts) \<mapsto> modelId)
              else userPreferences this) \<and>
           roomPreferences this' =
             (if roomTier opts then (roomPreferences this)(the (roomId opts) \<mapsto> modelId)
              else roomPreferences this) \<and>
           db this' = Some d' \<and> model_usage_stats d' = model_usage_stats d \<and>
           (userTier opts \<longrightarrow>
              list_ex (\<lambda>r. up_user_id r = the (userId opts) \<and> up_model_id r = modelId)
                (user_model_preferences d')) \<and>
           (roomTier opts \<longrightarrow>
              list_ex (\<lambda>r. rp_room_id r = the (roomId opts) \<and> rp_model_id r = modelId)
                (room_model_preferences d'))"
proof -
  obtain res this' where s: "switchModel now this modelId opts = (Inr res, this')"
    using switchModel_returns [OF assms(1,2), of now opts] assms(3,5,6) by auto
  have d: "\<exists>d'. db this' = Some d' \<and> model_usage_stats d' = model_usage_stats d \<and>
           (userTier opts \<longrightarrow>
              list_ex (\<lambda>r. up_user_id r = the (userId opts) \<and> up_model_id r = modelId)
                (user_model_preferences d')) \<and>
           (roomTier opts \<longrightarrow>
              list_ex (\<lambda>r. rp_room_id r = the (roomId opts) \<and> rp_model_id r = modelId)
                (room_model_preferences d'))"
    using s assms
    by (auto simp: switch_defs userTier_def roomTier_def Let_def
             split: if_splits prod.splits option.splits)
  show ?thesis
    using s d switchModel_Inr(1,2,3,4) [OF s] by auto
qed

theorem switchModel_usage_failure_swallowed_witness:
  "fst (switchModel 1 (defaultManager\<lparr>db := Some (emptyDatabase\<lparr>db_fails := (\<lambda>s. s = InsertUsage)\<rparr>)\<rparr>)
          (js ''cc-oaicomp/DeepSeek-V3.2'')
          \<lparr>userId = Some (js ''@a:hs''), roomId = Some (js ''!r:hs''),
           scope = Some (js ''session user room'')\<rparr>)
     = Inr \<lparr>success = True, previous = Some (js ''cc-oaicomp/Kimi-K2.5''),
             current = js ''cc-oaicomp/DeepSeek-V3.2''\<rparr>"
proof -
  let ?d = "emptyDatabase\<lparr>db_fails := (\<lambda>s. s = InsertUsage)\<rparr>"
  let ?m = "defaultManager\<lparr>db := Some ?d\<rparr>"
  let ?o = "\<lparr>userId = Some (js ''@a:hs''), roomId = Some (js ''!r:hs''),
           scope = Some (js ''session user room'')\<rparr>"
  have v: "validateModelIdFormat (js ''cc-oaicomp/DeepSeek-V3.2'')"
    by (simp add: validateModelIdFormat_def char_defs)
  have a: "isModelAvailable ?m (js ''cc-oaicomp/DeepSeek-V3.2'')"
    by (simp add: manager_defs char_defs)
  have t: "sessionTier ?o"
    by (simp add: sessionTier_def manager_defs char_defs)
  have c: "currentModel ?m = js ''cc-oaicomp/Kimi-K2.5''"
    by (simp add: defaultManager_def)
  show ?thesis
    using switchModel_usage_failure_swallowed [OF v a, of ?d 1 ?o] t c by auto
qed

subsection \<open>The user-preference upsert\<close>

text \<open>
  The upsert of the preference store does what the specification says: an absent record
  is inserted, an existing one (with a count below the largest 64-bit integer) has its
  usage count raised by exactly one and its model and timestamps overwritten.
\<close>

lemma saveUserPreference_absent:
  assumes "\<not> db_fails d SelectUserPreference" and "\<not> db_fails d InsertUserPreference"
    and "\<not> list_ex (\<lambda>r. up_user_id r = uid) (user_model_preferences d)"
  shows "saveUserPreference now d uid modelId =
           Inr (d\<lparr>user_model_preferences := user_model_preferences d @
                  [\<lparr>up_user_id = uid, up_model_id = modelId, up_last_used = now,
                    up_usage_count = 1, up_created_at = now, up_updated_at = now\<rparr>]\<rparr>)"
  using assms by (simp add: saveUserPreference_def)

lemma saveUserPreference_present:
  assumes "\<not> db_fails d SelectUserPreference" and "\<not> db_fails d UpdateUserPreference"
    and "r \<in> set (user_model_preferences d)" and "up_user_id r = uid"
    and "up_usage_count r < 9223372036854775807"
  shows "\<exists>d'. saveUserPreference now d uid modelId = Inr d' \<and>
           r\<lparr>up_model_id := modelId, up_last_used := now, up_updated_at := now,
              up_usage_count := up_usage_count r + 1\<rparr> \<in> set (user_model_preferences d')"
proof -
  have "list_ex (\<lambda>r. up_user_id r = uid) (user_model_preferences d)"
    using assms(3,4) by (auto simp: list_ex_iff)
  then show ?thesis
    using assms by (auto simp: saveUserPreference_def intro!: image_eqI [where x = r])
qed

text \<open>
  The statement \<open>switchModel\<close> runs instead replaces the row, so the usage count of the
  stored record is the column default whatever it was before.
\<close>

lemma replaceUserPreference_usage_count:
  assumes "replaceUserPreference now uid modelId d = Inr d'"
  shows "filter (\<lambda>r. up_user_id r = uid) (user_model_preferences d') =
           [\<lparr>up_user_id = uid, up_model_id = modelId, up_last_used = now,
             up_usage_count = 0, up_created_at = now, up_updated_at = now\<rparr>]"
proof -
  have "filter (\<lambda>r. up_user_id r = uid) (filter (\<lambda>r. up_user_id r \<noteq> uid) rows) = []"
    for rows :: "user_pref_row list"
    by (induction rows) auto
  then show ?thesis
    using assms by (auto simp: replaceUserPreference_def split: if_splits)
qed

text \<open>
  C4 on \<open>switchModel\<close>, the path that stores user preferences: two consecutive switches
  of the same user to the same model leave one record whose usage count is 0 after the
  first call and still 0 after the second.
\<close>

theorem switchModel_user_upsert_usage_count:
  "map_option (map (\<lambda>r. (up_user_id r, up_model_id r, up_usage_count r)) \<circ> user_model_preferences)
     (db (snd (switchModel 1 defaultManagerDb (js ''cc-oaicomp/Kimi-K2.5'')
        \<lparr>userId = Some (js ''@a:hs''), roomId = Some (js ''!r:hs''), scope = Some (js ''user'')\<rparr>)))
     = Some [(js ''@a:hs'', js ''cc-oaicomp/Kimi-K2.5'', 0)] \<and>
   map_option (map (\<lambda>r. (up_user_id r, up_model_id r, up_usage_count r)) \<circ> user_model_preferences)
     (db (snd (switchModel 2
        (snd (switchModel 1 defaultManagerDb (js ''cc-oaicomp/Kimi-K2.5'')
          \<lparr>userId = Some (js ''@a:hs''), roomId = Some (js ''!r:hs''), scope = Some (js ''user'')\<rparr>))
        (js ''cc-oaicomp/Kimi-K2.5'')
        \<lparr>userId = Some (js ''@a:hs''), roomId = Some (js ''!r:hs''), scope = Some (js ''user'')\<rparr>)))
     = Some [(js ''@a:hs'', js ''cc-oaicomp/Kimi-K2.5'', 0)]"
  by (simp add: switch_defs manager_defs char_defs Let_def)

text \<open>The same two calls on the preference store count 1, then 2.\<close>

lemma saveUserPreference_twice:
  "map_sum id (map (\<lambda>r. (up_user_id r, up_model_id r, up_usage_count r)) \<circ> user_model_preferences)
     (saveUserPreference 1 emptyDatabase (js ''@a:hs'') (js ''cc-oaicomp/Kimi-K2.5''))
     = Inr [(js ''@a:hs'', js ''cc-oaicomp/Kimi-K2.5'', 1)] \<and>
   map_sum id (map (\<lambda>r. (up_user_id r, up_model_id r, up_usage_count r)) \<circ> user_model_preferences)
     (case saveUserPreference 1 emptyDatabase (js ''@a:hs'') (js ''cc-oaicomp/Kimi-K2.5'') of
        Inl e \<Rightarrow> Inl e
      | Inr d \<Rightarrow> saveUserPreference 2 d (js ''@a:hs'') (js ''cc-oaicomp/Kimi-K2.5''))
     = Inr [(js ''@a:hs'', js ''cc-oaicomp/Kimi-K2.5'', 2)]"
  by (simp add: saveUserPreference_def emptyDatabase_def char_defs)

section \<open>Properties of intent detection\<close>

lemmas detect_defs = getAvailableModels_def getModelAliases_def modelNamePart_def
  brandKeywords_def addAliases_def handlerSwitchKeywords_def handlerScopeKeywords_def
  handlerPermanentKeywords_def handlerKeywords_def switchKeywords_def scopeKeywords_def
  permanentKeywords_def brandNames_def isVersionToken_def versionAt_def managerKeywords_def
  keywordPoints_def Object_entries_def isArrayIndex_def decimalValue_def newSet_def
  toLowerCase_def at_def objectSet_def

subsection \<open>Lower-casing keeps a keyword that has no upper-case letter\<close>

lemma includesStr_map:
  assumes "includesStr s k"
  shows "includesStr (map f s) (map f k)"
proof -
  from assms obtain ps ss where "s = ps @ k @ ss"
    by (auto simp: includesStr_sublist sublist_def)
  then have "map f s = map f ps @ map f k @ map f ss" by simp
  then show ?thesis
    unfolding includesStr_sublist sublist_def by blast
qed

lemma includesStr_toLowerCase:
  assumes "includesStr message kw" and "toLowerCase kw = kw"
  shows "includesStr (toLowerCase message) kw"
  using includesStr_map [OF assms(1), of "\<lambda>c. if 65 \<le> c \<and> c \<le> 90 then c + 32 else c"] assms(2)
  by (simp add: toLowerCase_def)

lemma list_ex_toLowerCase:
  assumes "list_ex (includesStr message) kws" and "\<And>kw. kw \<in> set kws \<Longrightarrow> toLowerCase kw = kw"
  shows "list_ex (includesStr (toLowerCase message)) kws"
  using assms by (auto simp: list_ex_iff intro: includesStr_toLowerCase)

lemma permanentKeywords_lower:
  "kw \<in> set handlerPermanentKeywords \<Longrightarrow> toLowerCase kw = kw"
  "kw \<in> set permanentKeywords \<Longrightarrow> toLowerCase kw = kw"
  by (auto simp: handlerPermanentKeywords_def permanentKeywords_def toLowerCase_def js_def)

subsection \<open>The matching loop of the handler's detector\<close>

lemma matchLoop_matched:
  assumes "matchLoop lowerMessage es st = (mid, kws)"
    and "fst st \<noteq> None \<longrightarrow> list_ex (includesStr lowerMessage) (snd st)"
    and "mid \<noteq> None"
  shows "list_ex (includesStr lowerMessage) kws"
  using assms
proof (induction es arbitrary: st)
  case Nil
  then show ?case by auto
next
  case (Cons e es)
  obtain modelId kwds where e: "e = (modelId, kwds)" by (cases e)
  let ?st' = "if list_ex (includesStr lowerMessage) kwds then (Some modelId, kwds) else st"
  have inv: "fst ?st' \<noteq> None \<longrightarrow> list_ex (includesStr lowerMessage) (snd ?st')"
    using Cons.prems(2) by simp
  show ?case
  proof (cases "truthy (fst ?st')")
    case True
    then have "matchLoop lowerMessage (e # es) st = ?st'"
      by (simp add: e Let_def)
    with Cons.prems(1,3) inv show ?thesis by auto
  next
    case False
    then have "matchLoop lowerMessage (e # es) st = matchLoop lowerMessage es ?st'"
      by (simp add: e Let_def)
    with Cons.prems(1) have "matchLoop lowerMessage es ?st' = (mid, kws)" by simp
    from Cons.IH [OF this inv Cons.prems(3)] show ?thesis .
  qed
qed

subsection \<open>The two detectors on the text of the specification's test\<close>

text \<open>
  The text is \<open>[qie huan dao] deepseek [yong jiu bao cun]\<close>: U+5207 U+6362 U+5230, a
  space, \<open>deepseek\<close>, a space, U+6C38 U+4E45 U+4FDD U+5B58. On the default catalog the
  detector that the message handler calls returns the DeepSeek model, the scope \<open>user\<close>
  and the confidence \<open>high\<close>.
\<close>

lemma detectModelSwitchIntent_deepseek_text:
  "detectModelSwitchIntent
     ([0x5207, 0x6362, 0x5230, 0x20] @ js ''deepseek'' @ [0x20, 0x6c38, 0x4e45, 0x4fdd, 0x5b58])
     defaultManager
   = Some \<lparr>intent = js ''switch_model'', intent_modelId = js ''cc-oaicomp/DeepSeek-V3.2'',
            intent_scope = js ''user'', confidence = js ''high''\<rparr>"
  by (simp add: detectModelSwitchIntent_def detect_defs manager_defs char_defs Let_def)

text \<open>
  The scoring detector of the model manager finds the same model and scope with the
  single brand keyword \<open>deepseek\<close>: 4 points, below the threshold 5, and so the
  confidence \<open>low\<close>.
\<close>

lemma detectSwitchIntent_deepseek_text:
  "detectSwitchIntent defaultManager
     ([0x5207, 0x6362, 0x5230, 0x20] @ js ''deepseek'' @ [0x20, 0x6c38, 0x4e45, 0x4fdd, 0x5b58])
   = Some \<lparr>intent = js ''switch_model'', intent_modelId = js ''cc-oaicomp/DeepSeek-V3.2'',
            intent_scope = js ''user'', confidence = js ''low'',
            matchedKeywords = [js ''deepseek'']\<rparr>"
  by (simp add: detectSwitchIntent_def detect_defs manager_defs char_defs Let_def)

text \<open>
  C6 fails as stated on \<open>ModelManager.detectSwitchIntent\<close>, the scoring detector: on this
  text and the default catalog its confidence is \<open>low\<close>, not \<open>high\<close>.
\<close>

theorem detectSwitchIntent_deepseek_confidence_counterexample:
  "map_option confidence
     (detectSwitchIntent defaultManager
        ([0x5207, 0x6362, 0x5230, 0x20] @ js ''deepseek'' @ [0x20, 0x6c38, 0x4e45, 0x4fdd, 0x5b58]))
     = Some (js ''low'') \<and>
   js ''low'' \<noteq> js ''high''"
  using detectSwitchIntent_deepseek_text by (simp add: js_def)

text \<open>
  C6, amended. On this text and the default catalog both detectors return a result
  whose model is the DeepSeek model and whose scope is \<open>user\<close>; the confidence is
  \<open>high\<close> from \<open>detectModelSwitchIntent\<close>, which the message handler calls, and \<open>low\<close>
  from \<open>ModelManager.detectSwitchIntent\<close>, whose only matched keyword is the brand name
  \<open>deepseek\<close>.
\<close>

theorem intent_detection_deepseek_permanent:
  "detectModelSwitchIntent
     ([0x5207, 0x6362, 0x5230, 0x20] @ js ''deepseek'' @ [0x20, 0x6c38, 0x4e45, 0x4fdd, 0x5b58])
     defaultManager
   = Some \<lparr>intent = js ''switch_model'', intent_modelId = js ''cc-oaicomp/DeepSeek-V3.2'',
            intent_scope = js ''user'', confidence = js ''high''\<rparr> \<and>
   detectSwitchIntent defaultManager
     ([0x5207, 0x6362, 0x5230, 0x20] @ js ''deepseek'' @ [0x20, 0x6c38, 0x4e45, 0x4fdd, 0x5b58])
   = Some \<lparr>intent = js ''switch_model'', intent_modelId = js ''cc-oaicomp/DeepSeek-V3.2'',
            intent_scope = js ''user'', confidence = js ''low'',
            matchedKeywords = [js ''deepseek'']\<rparr>"
  using detectModelSwitchIntent_deepseek_text detectSwitchIntent_deepseek_text by (rule conjI)

subsection \<open>The permanent keywords, and the confidence of the handler's detector\<close>

text \<open>
  C7. Whenever a detector returns a result on a text that contains one of the
  permanent keywords (U+6C38 U+4E45, U+4FDD U+5B58, U+504F U+597D; for the manager's
  detector also \<open>persistent\<close> and \<open>preference\<close>), the returned scope is \<open>user\<close>,
  whatever scope keyword the text contains as well.
\<close>

theorem permanent_keyword_scope_user:
  "(\<forall>r. detectModelSwitchIntent message modelManager = Some r \<longrightarrow>
        list_ex (includesStr message) handlerPermanentKeywords \<longrightarrow>
        intent_scope r = js ''user'') \<and>
   (\<forall>r. detectSwitchIntent this message = Some r \<longrightarrow>
        list_ex (includesStr message) permanentKeywords \<longrightarrow>
        intent_scope r = js ''user'')"
proof (intro conjI allI impI)
  fix r
  assume d: "detectModelSwitchIntent message modelManager = Some r"
    and p: "list_ex (includesStr message) handlerPermanentKeywords"
  have "list_ex (includesStr (toLowerCase message)) handlerPermanentKeywords"
    using p permanentKeywords_lower(1) by (rule list_ex_toLowerCase)
  with d show "intent_scope r = js ''user''"
    by (auto simp: detectModelSwitchIntent_def Let_def split: if_splits)
next
  fix r
  assume d: "detectSwitchIntent this message = Some r"
    and p: "list_ex (includesStr message) permanentKeywords"
  have "list_ex (includesStr (toLowerCase message)) permanentKeywords"
    using p permanentKeywords_lower(2) by (rule list_ex_toLowerCase)
  with d show "intent_scope r = js ''user''"
    by (auto simp: detectSwitchIntent_def Let_def split: if_splits)
qed

text \<open>
  The witness text has the global keyword U+5168 U+5C40 and the permanent keyword
  U+6C38 U+4E45: \<open>[qie huan dao] deepseek [quan ju] [yong jiu]\<close>.
\<close>

theorem permanent_keyword_scope_user_witness:
  "map_option intent_scope (detectModelSwitchIntent
      ([0x5207, 0x6362, 0x5230, 0x20] @ js ''deepseek'' @ [0x20, 0x5168, 0x5c40, 0x20, 0x6c38, 0x4e45])
      defaultManager) = Some (js ''user'') \<and>
   map_option intent_scope (detectSwitchIntent defaultManager
      ([0x5207, 0x6362, 0x5230, 0x20] @ js ''deepseek'' @ [0x20, 0x5168, 0x5c40, 0x20, 0x6c38, 0x4e45]))
     = Some (js ''user'') \<and>
   scopeLoop
      ([0x5207, 0x6362, 0x5230, 0x20] @ js ''deepseek'' @ [0x20, 0x5168, 0x5c40, 0x20, 0x6c38, 0x4e45])
      (Object_entries handlerScopeKeywords) (js ''session'') = js ''global''"
proof -
  let ?t = "[0x5207, 0x6362, 0x5230, 0x20] @ js ''deepseek'' @ [0x20, 0x5168, 0x5c40, 0x20, 0x6c38, 0x4e45]"
  have a: "detectModelSwitchIntent ?t defaultManager \<noteq> None"
    by (simp add: detectModelSwitchIntent_def detect_defs manager_defs char_defs Let_def)
  have b: "detectSwitchIntent defaultManager ?t \<noteq> None"
    by (simp add: detectSwitchIntent_def detect_defs manager_defs char_defs Let_def)
  have p: "list_ex (includesStr ?t) handlerPermanentKeywords"
    "list_ex (includesStr ?t) permanentKeywords"
    by (simp_all add: handlerPermanentKeywords_def permanentKeywords_def char_defs)
  have g: "scopeLoop ?t (Object_entries handlerScopeKeywords) (js ''session'') = js ''global''"
    by (simp add: detect_defs char_defs)
  show ?thesis
    using permanent_keyword_scope_user [of ?t defaultManager defaultManager] a b p g
    by auto
qed

text \<open>
  C10. Every result of the detector that the message handler calls has the confidence
  \<open>high\<close>: the keyword list tested for the confidence is the matched model's, and the
  model was matched because one of them occurs in the text.
\<close>

theorem detectModelSwitchIntent_confidence_high:
  assumes "detectModelSwitchIntent message modelManager = Some r"
  shows "confidence r = js ''high''"
proof -
  let ?lm = "toLowerCase message"
  let ?es = "Object_entries (addAliases (fold (\<lambda>m mk. objectSet mk (model_id m) (handlerKeywords m))
                            (getAvailableModels modelManager []) []))"
  let ?matched = "matchLoop ?lm ?es (None, [])"
  from assms have t: "truthy (fst ?matched)"
    and c: "confidence r = (if list_ex (includesStr ?lm) (snd ?matched)
                            then js ''high'' else js ''medium'')"
    by (auto simp: detectModelSwitchIntent_def Let_def split: if_splits)
  from t have "fst ?matched \<noteq> None" by (auto simp: truthy_def split: option.splits)
  then have "list_ex (includesStr ?lm) (snd ?matched)"
    using matchLoop_matched [of ?lm ?es "(None, [])" "fst ?matched" "snd ?matched"] by simp
  with c show ?thesis by simp
qed

theorem detectModelSwitchIntent_confidence_high_witness:
  "map_option confidence (detectModelSwitchIntent ([0x7528, 0x20] @ js ''fast'') defaultManager)
     = Some (js ''high'')"
proof -
  let ?t = "[0x7528, 0x20] @ js ''fast''"
  have "detectModelSwitchIntent ?t defaultManager =
          Some \<lparr>intent = js ''switch_model'', intent_modelId = js ''cc-oaicomp/DeepSeek-V3.2'',
                 intent_scope = js ''session'', confidence = js ''high''\<rparr>"
    by (simp add: detectModelSwitchIntent_def detect_defs manager_defs char_defs Let_def)
  then show ?thesis
    using detectModelSwitchIntent_confidence_high [of ?t defaultManager] by simp
qed

subsection \<open>The loops of the manager's detector\<close>






subsection \<open>The iteration order of the keyword lists\<close>









subsection \<open>The version-number test\<close>

lemma isVersionToken_iff:
  "isVersionToken k \<longleftrightarrow>
     (\<exists>a b. k = a @ 46 # b \<and> a \<noteq> [] \<and> b \<noteq> [] \<and> list_all isDigit a \<and> list_all isDigit b)"
proof
  assume v: "isVersionToken k"
  then obtain c b where d: "dropWhile isDigit k = c # b"
    by (auto simp: isVersionToken_def split: list.splits)
  with v have c: "c = 46" and b: "b \<noteq> []" "list_all isDigit b"
    and a: "takeWhile isDigit k \<noteq> []"
    by (auto simp: isVersionToken_def)
  have "k = takeWhile isDigit k @ 46 # b"
    using takeWhile_dropWhile_id [of isDigit k] d c by simp
  moreover have "list_all isDigit (takeWhile isDigit k)"
    by (simp add: list_all_iff) (meson set_takeWhileD)
  ultimately show "\<exists>a b. k = a @ 46 # b \<and> a \<noteq> [] \<and> b \<noteq> [] \<and>
                     list_all isDigit a \<and> list_all isDigit b"
    using a b by blast
next
  assume "\<exists>a b. k = a @ 46 # b \<and> a \<noteq> [] \<and> b \<noteq> [] \<and> list_all isDigit a \<and> list_all isDigit b"
  then obtain a b where k: "k = a @ 46 # b" and a: "a \<noteq> []" "list_all isDigit a"
    and b: "b \<noteq> []" "list_all isDigit b" by blast
  have n: "\<not> isDigit 46" by (simp add: isDigit_def)
  have t: "takeWhile isDigit k = a" using k a n by (simp add: list_all_iff)
  have d: "dropWhile isDigit k = 46 # b" using k a n by (simp add: list_all_iff)
  show "isVersionToken k" using t d a b by (simp add: isVersionToken_def)
qed

lemma isVersionNumber_eq: "isVersionNumber k = isVersionToken k"
  by (simp add: isVersionNumber_def isVersionToken_iff)


subsection \<open>The two detectors differ\<close>

text \<open>
  On \<open>[yong] kimi [hai shi] deepseek-v3.2\<close> (U+7528, \<open>kimi\<close>, U+8FD8 U+662F,
  \<open>deepseek-v3.2\<close>) the handler's detector stops at the first model with a keyword in
  the text, Kimi; the manager's detector scores Kimi 4 and DeepSeek 20 and returns
  DeepSeek.
\<close>

lemma detectors_differ:
  "detectModelSwitchIntent
     ([0x7528, 0x20] @ js ''kimi '' @ [0x8fd8, 0x662f, 0x20] @ js ''deepseek-v3.2'') defaultManager
   = Some \<lparr>intent = js ''switch_model'', intent_modelId = js ''cc-oaicomp/Kimi-K2.5'',
            intent_scope = js ''session'', confidence = js ''high''\<rparr>"
  "detectSwitchIntent defaultManager
     ([0x7528, 0x20] @ js ''kimi '' @ [0x8fd8, 0x662f, 0x20] @ js ''deepseek-v3.2'')
   = Some \<lparr>intent = js ''switch_model'', intent_modelId = js ''cc-oaicomp/DeepSeek-V3.2'',
            intent_scope = js ''session'', confidence = js ''high'',
            matchedKeywords = [js ''deepseek-v3.2'', js ''deepseek'', js ''3.2'']\<rparr>"
  by (simp_all add: detectModelSwitchIntent_def detectSwitchIntent_def detect_defs manager_defs
        char_defs Let_def)

subsection \<open>The result of the manager's detector from the sums of its loop\<close>

lemma keywordPoints_positive: "0 < keywordPoints modelId keyword"
  by (simp add: keywordPoints_def)



subsection \<open>The points of the code and the tiers of the specification\<close>




text \<open>
  The two synonyms that the list of brand names leaves out: \<open>anthropic\<close> is pushed as a
  brand keyword of a Claude model and counts 2. On \<open>use anthropic fast\<close> and the default
  catalog, Claude (the brand synonym) and DeepSeek (the alias \<open>fast\<close>) both score 2, and
  DeepSeek, the earlier one, is returned.
\<close>

lemma keywordPoints_anthropic:
  "keywordPoints (js ''cc-claude/claude-3.5-sonnet'') (js ''anthropic'') = 2"
  "keywordKind (js ''cc-claude/claude-3.5-sonnet'') (js ''anthropic'') = BrandSynonym"
  by (simp_all add: keywordKind_def isVersionNumber_eq brandSynonyms_def detect_defs char_defs)

lemma detectSwitchIntent_anthropic_fast:
  "detectSwitchIntent defaultManager (js ''use anthropic fast'')
   = Some \<lparr>intent = js ''switch_model'', intent_modelId = js ''cc-oaicomp/DeepSeek-V3.2'',
            intent_scope = js ''session'', confidence = js ''low'',
            matchedKeywords = [js ''fast'']\<rparr>"
  by (simp add: detectSwitchIntent_def detect_defs manager_defs char_defs Let_def)

subsection \<open>The claim on the scores\<close>




end
